theory Spec2Isabelle
  imports Complex_Main "HOL-Library.Log_Nat"
begin

section \<open>Cost and ROI derivation of the cloud migration planner\<close>

text \<open>
  The development embeds the computational part of \<^verbatim>\<open>frontend/static/js/main.js\<close>:
  the cost helpers, \<^verbatim>\<open>calculateServerCosts\<close>, \<^verbatim>\<open>processServerCosts\<close>, the derived
  figures of \<^verbatim>\<open>displayCostAnalysis\<close>, and the control flow of
  \<^verbatim>\<open>displayMigrationRoadmap\<close>.

  Numbers. The first embedding computes with exact reals: a JavaScript number that holds
  a finite amount is a \<^typ>\<open>real\<close>, and sums, products and quotients by the non-zero
  constants of the source are the mathematical ones. A number that may be \<^verbatim>\<open>NaN\<close> or
  infinite (the migration cost, whose factors come out of the lookup tables, and the
  results of the quotients whose divisor is not a constant) has the type \<open>number\<close>. The
  second embedding, further down, computes the same expressions in IEEE doubles: every
  operation is followed by rounding to the nearest double.

  Objects. The payload is taken to be well typed: its objects are records whose fields
  are present and hold values of the type the source uses them at; a part that the
  source tests for absence, or reads next to such a test, is an \<open>option\<close>. Strings are
  \<^typ>\<open>string\<close>. An object literal used as a lookup table has the keys written in the
  literal and, beneath them, the members that every object inherits from
  \<^verbatim>\<open>Object.prototype\<close>.

  Effects. The functions of the source that write into the page are modelled by the
  values they compute before formatting.
\<close>

subsection \<open>Roadmap payload\<close>

text \<open>
  The roadmap is optional in the payload, and \<^verbatim>\<open>displayMigrationRoadmap\<close> reads its
  parts without knowing that they are there; \<open>None\<close> is an absent (undefined) part.
\<close>

record project_summary =
  duration :: string
  totalEffort :: real
  startDate :: string
  endDate :: string

record phase =
  name :: string
  startDate :: string
  endDate :: string
  duration :: string
  criticalPath :: bool
  complexity :: string
  strategy :: "string option"
  tasks :: "string list option"
  deliverables :: "string list option"
  risks :: "string list option"

record roadmap =
  projectSummary :: "project_summary option"
  timeline :: "phase list option"

subsection \<open>Input payload\<close>

record cpu_metrics =
  cores :: real
  utilization :: real

record usage =
  total_size :: real
  used_size :: real

record server_metrics =
  cpu :: cpu_metrics
  memory :: usage
  storage :: usage

record network_utilization =
  bandwidth :: real
  averageUsage :: real

record server_data =
  serverId :: string
  serverName :: string
  applications :: "string list"
  metrics :: server_metrics
  networkUtilization :: network_utilization

record migration_strategy =
  strategy :: string
  description :: string
  aws_services :: "string list"

record complexity_assessment =
  level :: string
  percentage :: real

record server =
  serverData :: server_data
  migrationStrategy :: migration_strategy
  complexity :: complexity_assessment

subsection \<open>JavaScript numbers and values\<close>

datatype number = Finite real | NaN | Infinity | NegInfinity

text \<open>\<^verbatim>\<open>x + y\<close> on numbers.\<close>

fun js_plus :: "number \<Rightarrow> number \<Rightarrow> number" where
  "js_plus (Finite a) (Finite b) = Finite (a + b)"
| "js_plus NaN y = NaN"
| "js_plus x NaN = NaN"
| "js_plus Infinity NegInfinity = NaN"
| "js_plus NegInfinity Infinity = NaN"
| "js_plus Infinity y = Infinity"
| "js_plus x Infinity = Infinity"
| "js_plus NegInfinity y = NegInfinity"
| "js_plus x NegInfinity = NegInfinity"

text \<open>
  With \<^verbatim>\<open>0\<close> and \<^verbatim>\<open>+\<close> numbers form a commutative monoid, so that the sum of a list of
  numbers is written as for reals.
\<close>

instantiation number :: comm_monoid_add
begin
definition zero_number :: number where
  "zero_number = Finite 0"
definition plus_number :: "number \<Rightarrow> number \<Rightarrow> number" where
  "plus_number = js_plus"
instance
proof
  fix a b c :: number
  show "a + b + c = a + (b + c)"
    unfolding plus_number_def by (cases a; cases b; cases c) simp_all
  show "a + b = b + a"
    unfolding plus_number_def by (cases a; cases b) simp_all
  show "0 + a = a"
    unfolding plus_number_def zero_number_def by (cases a) simp_all
qed
end

text \<open>\<^verbatim>\<open>a / b\<close> on finite operands, with the IEEE results for a zero divisor.\<close>

definition js_div :: "real \<Rightarrow> real \<Rightarrow> number" where
  "js_div a b =
     (if b = 0 then (if a = 0 then NaN else if 0 < a then Infinity else NegInfinity)
      else Finite (a / b))"

text \<open>\<^verbatim>\<open>x / b\<close> for a number \<open>x\<close> and a finite \<open>b\<close>.\<close>

definition js_quot :: "number \<Rightarrow> real \<Rightarrow> number" where
  "js_quot x b =
     (case x of
        Finite a \<Rightarrow> js_div a b
      | NaN \<Rightarrow> NaN
      | Infinity \<Rightarrow> (if b < 0 then NegInfinity else Infinity)
      | NegInfinity \<Rightarrow> (if b < 0 then Infinity else NegInfinity))"

text \<open>\<^verbatim>\<open>x * c\<close> for a number \<open>x\<close> and a finite \<open>c\<close>.\<close>

definition js_times :: "number \<Rightarrow> real \<Rightarrow> number" where
  "js_times x c =
     (case x of
        Finite a \<Rightarrow> Finite (a * c)
      | NaN \<Rightarrow> NaN
      | Infinity \<Rightarrow> (if c = 0 then NaN else if 0 < c then Infinity else NegInfinity)
      | NegInfinity \<Rightarrow> (if c = 0 then NaN else if 0 < c then NegInfinity else Infinity))"

text \<open>\<^verbatim>\<open>a - y\<close> for a finite \<open>a\<close> and a number \<open>y\<close>.\<close>

definition js_minus :: "real \<Rightarrow> number \<Rightarrow> number" where
  "js_minus a y =
     (case y of
        Finite b \<Rightarrow> Finite (a - b)
      | NaN \<Rightarrow> NaN
      | Infinity \<Rightarrow> NegInfinity
      | NegInfinity \<Rightarrow> Infinity)"

text \<open>\<^verbatim>\<open>Math.ceil\<close>.\<close>

definition js_ceil :: "number \<Rightarrow> number" where
  "js_ceil x = (case x of Finite a \<Rightarrow> Finite (of_int \<lceil>a\<rceil>) | _ \<Rightarrow> x)"

text \<open>
  What a read of a lookup table can yield: a number written in the table, or a member
  inherited from \<^verbatim>\<open>Object.prototype\<close> (a function, or for \<^verbatim>\<open>__proto__\<close> the prototype
  object), kept by its name. An absent property (\<^verbatim>\<open>undefined\<close>) is \<open>None\<close>.
\<close>

datatype js_value = Num real | Member string

text \<open>
  \<^verbatim>\<open>a * b\<close> on two such values: a member of \<^verbatim>\<open>Object.prototype\<close> converts to \<^verbatim>\<open>NaN\<close>.
\<close>

fun js_mult :: "js_value \<Rightarrow> js_value \<Rightarrow> number" where
  "js_mult (Num a) (Num b) = Finite (a * b)"
| "js_mult x y = NaN"

text \<open>The names that every object inherits from \<^verbatim>\<open>Object.prototype\<close>.\<close>

definition object_prototype :: "string list" where
  "object_prototype =
     [''constructor'', ''hasOwnProperty'', ''isPrototypeOf'', ''propertyIsEnumerable'',
      ''toLocaleString'', ''toString'', ''valueOf'', ''__proto__'',
      ''__defineGetter__'', ''__defineSetter__'', ''__lookupGetter__'', ''__lookupSetter__'']"

text \<open>
  \<^verbatim>\<open>table[key]\<close> for an object literal: its own property when the key is written in the
  literal, else the inherited member of that name, else \<^verbatim>\<open>undefined\<close>.
\<close>

definition lookup :: "(string \<rightharpoonup> real) \<Rightarrow> string \<Rightarrow> js_value option" where
  "lookup table key =
     (case table key of
        Some v \<Rightarrow> Some (Num v)
      | None \<Rightarrow> if key \<in> set object_prototype then Some (Member key) else None)"

text \<open>
  \<^verbatim>\<open>v || fallback\<close>: the left operand when it is truthy (a number other than 0, or any
  function or object), the fallback otherwise.
\<close>

definition js_or :: "js_value option \<Rightarrow> js_value \<Rightarrow> js_value" where
  "js_or v fallback =
     (case v of
        None \<Rightarrow> fallback
      | Some (Num x) \<Rightarrow> if x = 0 then fallback else Num x
      | Some (Member m) \<Rightarrow> Member m)"

subsection \<open>Cost model\<close>

definition costPerCore :: real where
  "costPerCore = 3000"

definition costPerGB :: real where
  "costPerGB = 100"

definition costPerGBBandwidth :: real where
  "costPerGBBandwidth = 50"

definition calculateComputeCost :: "server_metrics \<Rightarrow> real" where
  "calculateComputeCost m =
     (let utilizationFactor = utilization (cpu m) / 100
      in cores (cpu m) * costPerCore * utilizationFactor)"

definition calculateStorageCost :: "server_metrics \<Rightarrow> real" where
  "calculateStorageCost m =
     (let storageGB = total_size (storage m) / (1024 * 1024)
      in storageGB * costPerGB)"

definition calculateNetworkCost :: "network_utilization \<Rightarrow> real" where
  "calculateNetworkCost n = (bandwidth n * averageUsage n / 100) * costPerGBBandwidth"

definition costs :: "string \<rightharpoonup> real" where
  "costs = [''Rehost'' \<mapsto> 500000, ''Replatform'' \<mapsto> 1000000, ''Refactor'' \<mapsto> 2000000]"

definition getBaselineMigrationCost :: "string \<Rightarrow> js_value" where
  "getBaselineMigrationCost s = js_or (lookup costs s) (the (lookup costs ''Rehost''))"

definition multipliers :: "string \<rightharpoonup> real" where
  "multipliers = [''High'' \<mapsto> 1.5, ''Medium'' \<mapsto> 1.2, ''Low'' \<mapsto> 1.0]"

definition getComplexityMultiplier :: "string \<Rightarrow> js_value" where
  "getComplexityMultiplier l = js_or (lookup multipliers l) (Num 1.0)"

subsection \<open>Per-server cost breakdown\<close>

record cost_breakdown =
  projectedMonthlyCost :: real
  currentMonthlyCost :: real
  migrationCost :: number
  savings :: real

definition calculateServerCosts :: "server \<Rightarrow> cost_breakdown" where
  "calculateServerCosts s =
     (let baselineCost = getBaselineMigrationCost (strategy (migrationStrategy s));
          complexityMultiplier = getComplexityMultiplier (level (complexity s));
          computeCost = calculateComputeCost (metrics (serverData s));
          storageCost = calculateStorageCost (metrics (serverData s));
          networkCost = calculateNetworkCost (networkUtilization (serverData s));
          projected = computeCost + storageCost + networkCost;
          current = projected * 1.4;
          migration = js_mult baselineCost complexityMultiplier
      in \<lparr>projectedMonthlyCost = projected,
          currentMonthlyCost = current,
          migrationCost = migration,
          savings = current - projected\<rparr>)"

subsection \<open>Portfolio aggregation\<close>

record cost_data =
  totalMigrationCost :: number
  monthlyCloudCost :: real
  currentCosts :: real
  monthlySavings :: real
  roiMonths :: number
  serverCosts :: "string \<rightharpoonup> cost_breakdown"

text \<open>
  The body of the \<^verbatim>\<open>forEach\<close> callback. The four variables it assigns to
  (\<^verbatim>\<open>totalMigrationCost\<close>, \<^verbatim>\<open>monthlyCloudCost\<close>, \<^verbatim>\<open>currentCosts\<close>, \<^verbatim>\<open>serverCosts\<close>) are the
  state, in this order.
\<close>

type_synonym totals = "number \<times> real \<times> real \<times> (string \<rightharpoonup> cost_breakdown)"

definition forEach_server :: "totals \<Rightarrow> server \<Rightarrow> totals" where
  "forEach_server acc s =
     (case acc of (migration, monthly, current, byId) \<Rightarrow>
        (let c = calculateServerCosts s
         in (migration + migrationCost c,
             monthly + projectedMonthlyCost c,
             current + currentMonthlyCost c,
             byId(serverId (serverData s) \<mapsto> c))))"

definition processServerCosts :: "server list \<Rightarrow> cost_data" where
  "processServerCosts servers =
     (case foldl forEach_server (0, 0, 0, Map.empty) servers of
        (migration, monthly, current, byId) \<Rightarrow>
          (let savings' = current - monthly;
               roi = (if 0 < savings' then js_ceil (js_quot migration savings') else Finite 0)
           in \<lparr>totalMigrationCost = migration,
               monthlyCloudCost = monthly,
               currentCosts = current,
               monthlySavings = savings',
               roiMonths = roi,
               serverCosts = byId\<rparr>))"

subsection \<open>Derived reporting values\<close>

text \<open>The three figures that \<^verbatim>\<open>displayCostAnalysis\<close> computes before formatting them.\<close>

record cost_summary =
  annualSavings :: real
  threeYearSavings :: number
  costReduction :: number

definition displayCostAnalysis :: "cost_data \<Rightarrow> cost_summary" where
  "displayCostAnalysis costData =
     \<lparr>annualSavings = monthlySavings costData * 12,
      threeYearSavings = js_minus (monthlySavings costData * 36) (totalMigrationCost costData),
      costReduction =
        js_times (js_div (currentCosts costData - monthlyCloudCost costData)
                         (currentCosts costData)) 100\<rparr>"

subsection \<open>Roadmap\<close>

text \<open>
  The only exception the embedded code can raise is the \<^verbatim>\<open>TypeError\<close> of reading a
  property of \<^verbatim>\<open>undefined\<close>.
\<close>

datatype error = TypeError

text \<open>
  The markup that \<^verbatim>\<open>displayMigrationRoadmap\<close> writes into the page is either the
  "Roadmap information not available" block or the summary header followed by one
  element per phase. The element of a phase is a template filled from the phase and
  from the flag \<^verbatim>\<open>isLast\<close>; it is kept as that pair.
\<close>

type_synonym phase_element = "phase \<times> bool"

datatype roadmap_html = Unavailable | Rendered project_summary "phase_element list"

definition createPhaseElement :: "phase \<Rightarrow> bool \<Rightarrow> phase_element" where
  "createPhaseElement p isLast = (p, isLast)"

definition displayMigrationRoadmap :: "roadmap option \<Rightarrow> error + roadmap_html" where
  "displayMigrationRoadmap r =
     (case r of
        None \<Rightarrow> Inr Unavailable
      | Some rm \<Rightarrow>
          (case timeline rm of
             None \<Rightarrow> Inr Unavailable
           | Some phases \<Rightarrow>
               (case projectSummary rm of
                  None \<Rightarrow> Inl TypeError
                | Some summary \<Rightarrow>
                    Inr (Rendered summary
                          (map (\<lambda>(index, p). createPhaseElement p (index = length phases - 1))
                               (enumerate 0 phases))))))"


subsection \<open>IEEE doubles\<close>

text \<open>
  A double has a significand of 53 bits. For \<open>x\<close> other than 0, \<open>exponent x\<close> is the
  integer \<open>e\<close> with \<open>2\<^sup>e \<le> \<bar>x\<bar> < 2\<^sup>e\<^sup>+\<^sup>1\<close>, and the doubles around \<open>x\<close> are the
  multiples of \<open>ulp x = 2\<^sup>e\<^sup>-\<^sup>5\<^sup>2\<close>. \<open>binary64 x\<close> is the double nearest to \<open>x\<close>, the one
  with the even significand when two are equally near: the result of every arithmetic
  operation of JavaScript on finite operands. The range of the exponent is not bounded
  here, so overflow to \<^verbatim>\<open>Infinity\<close> and the subnormal numbers are outside the model.
\<close>

definition exponent :: "real \<Rightarrow> int" where
  "exponent x =
     (if 1 \<le> \<bar>x\<bar> then bitlen \<lfloor>\<bar>x\<bar>\<rfloor> - 1 else - bitlen (\<lceil>1 / \<bar>x\<bar>\<rceil> - 1))"

definition ulp :: "real \<Rightarrow> real" where
  "ulp x = 2 powi (exponent x - 52)"

definition round_half_even :: "real \<Rightarrow> int" where
  "round_half_even y =
     (let f = \<lfloor>y\<rfloor>; d = y - of_int f
      in if d < 1 / 2 then f else if 1 / 2 < d then f + 1 else if even f then f else f + 1)"

definition binary64 :: "real \<Rightarrow> real" where
  "binary64 x = (if x = 0 then 0 else of_int (round_half_even (x / ulp x)) * ulp x)"

text \<open>Rounding of a result that may be \<^verbatim>\<open>NaN\<close> or infinite, and of a literal of a table.\<close>

definition round64 :: "number \<Rightarrow> number" where
  "round64 x = (case x of Finite a \<Rightarrow> Finite (binary64 a) | _ \<Rightarrow> x)"

definition literal64 :: "js_value \<Rightarrow> js_value" where
  "literal64 v = (case v of Num a \<Rightarrow> Num (binary64 a) | Member m \<Rightarrow> Member m)"

subsection \<open>The cost computation in doubles\<close>

text \<open>
  The same functions with the arithmetic of the source as JavaScript performs it: each
  \<^verbatim>\<open>+\<close>, \<^verbatim>\<open>-\<close>, \<^verbatim>\<open>*\<close> and \<^verbatim>\<open>/\<close> is rounded, and a literal is the double nearest to it
  (of the literals of the source only 1.4 and 1.2 are not doubles themselves). The
  numbers of the payload are the doubles that the parser produced; they are used as
  they are.
\<close>

definition calculateComputeCost64 :: "server_metrics \<Rightarrow> real" where
  "calculateComputeCost64 m =
     (let utilizationFactor = binary64 (utilization (cpu m) / 100)
      in binary64 (binary64 (cores (cpu m) * costPerCore) * utilizationFactor))"

definition calculateStorageCost64 :: "server_metrics \<Rightarrow> real" where
  "calculateStorageCost64 m =
     (let storageGB = binary64 (total_size (storage m) / binary64 (1024 * 1024))
      in binary64 (storageGB * costPerGB))"

definition calculateNetworkCost64 :: "network_utilization \<Rightarrow> real" where
  "calculateNetworkCost64 n =
     binary64 (binary64 (binary64 (bandwidth n * averageUsage n) / 100) * costPerGBBandwidth)"

definition calculateServerCosts64 :: "server \<Rightarrow> cost_breakdown" where
  "calculateServerCosts64 s =
     (let baselineCost = literal64 (getBaselineMigrationCost (strategy (migrationStrategy s)));
          complexityMultiplier = literal64 (getComplexityMultiplier (level (complexity s)));
          computeCost = calculateComputeCost64 (metrics (serverData s));
          storageCost = calculateStorageCost64 (metrics (serverData s));
          networkCost = calculateNetworkCost64 (networkUtilization (serverData s));
          projected = binary64 (binary64 (computeCost + storageCost) + networkCost);
          current = binary64 (projected * binary64 1.4);
          migration = round64 (js_mult baselineCost complexityMultiplier)
      in \<lparr>projectedMonthlyCost = projected,
          currentMonthlyCost = current,
          migrationCost = migration,
          savings = binary64 (current - projected)\<rparr>)"

definition forEach_server64 :: "totals \<Rightarrow> server \<Rightarrow> totals" where
  "forEach_server64 acc s =
     (case acc of (migration, monthly, current, byId) \<Rightarrow>
        (let c = calculateServerCosts64 s
         in (round64 (migration + migrationCost c),
             binary64 (monthly + projectedMonthlyCost c),
             binary64 (current + currentMonthlyCost c),
             byId(serverId (serverData s) \<mapsto> c))))"

definition processServerCosts64 :: "server list \<Rightarrow> cost_data" where
  "processServerCosts64 servers =
     (case foldl forEach_server64 (0, 0, 0, Map.empty) servers of
        (migration, monthly, current, byId) \<Rightarrow>
          (let savings' = binary64 (current - monthly);
               roi = (if 0 < savings' then js_ceil (round64 (js_quot migration savings'))
                      else Finite 0)
           in \<lparr>totalMigrationCost = migration,
               monthlyCloudCost = monthly,
               currentCosts = current,
               monthlySavings = savings',
               roiMonths = roi,
               serverCosts = byId\<rparr>))"

subsection \<open>Inputs used in the statements\<close>

text \<open>A server with one of its inputs replaced, all other fields kept.\<close>

definition with_cores :: "real \<Rightarrow> server \<Rightarrow> server" where
  "with_cores c s =
     s\<lparr>serverData := (serverData s)
        \<lparr>metrics := (metrics (serverData s))
           \<lparr>cpu := (cpu (metrics (serverData s)))\<lparr>cores := c\<rparr>\<rparr>\<rparr>\<rparr>"

definition with_utilization :: "real \<Rightarrow> server \<Rightarrow> server" where
  "with_utilization u s =
     s\<lparr>serverData := (serverData s)
        \<lparr>metrics := (metrics (serverData s))
           \<lparr>cpu := (cpu (metrics (serverData s)))\<lparr>utilization := u\<rparr>\<rparr>\<rparr>\<rparr>"

definition with_strategy :: "string \<Rightarrow> server \<Rightarrow> server" where
  "with_strategy l s = s\<lparr>migrationStrategy := (migrationStrategy s)\<lparr>strategy := l\<rparr>\<rparr>"

definition with_level :: "string \<Rightarrow> server \<Rightarrow> server" where
  "with_level l s = s\<lparr>complexity := (complexity s)\<lparr>level := l\<rparr>\<rparr>"

text \<open>The server of the worked example: 4 cores at 50 percent, 1 GB of storage.\<close>

definition example_server :: server where
  "example_server =
     \<lparr>serverData =
        \<lparr>serverId = ''srv-1'', serverName = ''app-server'', applications = [''web''],
         metrics = \<lparr>cpu = \<lparr>cores = 4, utilization = 50\<rparr>,
                    memory = \<lparr>total_size = 8388608, used_size = 4194304\<rparr>,
                    storage = \<lparr>total_size = 1048576, used_size = 524288\<rparr>\<rparr>,
         networkUtilization = \<lparr>bandwidth = 100, averageUsage = 50\<rparr>\<rparr>,
      migrationStrategy =
        \<lparr>strategy = ''Replatform'', description = ''Lift and reshape'',
         aws_services = [''RDS'']\<rparr>,
      complexity = \<lparr>level = ''Medium'', percentage = 50\<rparr>\<rparr>"

text \<open>A server that is switched on but unused: every cost-bearing metric is 0.\<close>

definition idle_server :: server where
  "idle_server =
     \<lparr>serverData =
        \<lparr>serverId = ''srv-2'', serverName = ''standby'', applications = [],
         metrics = \<lparr>cpu = \<lparr>cores = 2, utilization = 0\<rparr>,
                    memory = \<lparr>total_size = 0, used_size = 0\<rparr>,
                    storage = \<lparr>total_size = 0, used_size = 0\<rparr>\<rparr>,
         networkUtilization = \<lparr>bandwidth = 0, averageUsage = 0\<rparr>\<rparr>,
      migrationStrategy =
        \<lparr>strategy = ''Rehost'', description = ''Lift and shift'', aws_services = [''EC2'']\<rparr>,
      complexity = \<lparr>level = ''Low'', percentage = 10\<rparr>\<rparr>"

definition example_summary :: project_summary where
  "example_summary =
     \<lparr>project_summary.duration = ''12 weeks'', totalEffort = 960,
      project_summary.startDate = ''2025-01-06'', project_summary.endDate = ''2025-03-31''\<rparr>"

section \<open>Properties\<close>

subsection \<open>Evaluation of the cost model\<close>

lemma number_arith [simp]:
  "(0::number) = Finite 0"
  "Finite a + Finite b = Finite (a + b)"
  "NaN + x = NaN"
  by (simp_all add: zero_number_def plus_number_def)

lemma number_plus_NaN [simp]: "x + NaN = NaN"
  by (cases x) (simp_all add: plus_number_def)

lemma number_plus_zero [simp]: "x + Finite 0 = x" "Finite 0 + x = x"
  using add_0_right [of x] add_0_left [of x] by (simp_all only: zero_number_def)

lemmas cost_defs =
  calculateServerCosts_def calculateComputeCost_def calculateStorageCost_def
  calculateNetworkCost_def costPerCore_def costPerGB_def costPerGBBandwidth_def
  getBaselineMigrationCost_def getComplexityMultiplier_def costs_def multipliers_def
  lookup_def js_or_def

lemma example_server_costs:
  "calculateServerCosts example_server =
     \<lparr>projectedMonthlyCost = 8600, currentMonthlyCost = 12040,
      migrationCost = Finite 1200000, savings = 3440\<rparr>"
  by (simp add: example_server_def cost_defs)

lemma example_server_8_cores_costs:
  "calculateServerCosts (with_cores 8 example_server) =
     \<lparr>projectedMonthlyCost = 14600, currentMonthlyCost = 20440,
      migrationCost = Finite 1200000, savings = 5840\<rparr>"
  by (simp add: example_server_def with_cores_def cost_defs)

lemma idle_server_costs:
  "calculateServerCosts idle_server =
     \<lparr>projectedMonthlyCost = 0, currentMonthlyCost = 0,
      migrationCost = Finite 500000, savings = 0\<rparr>"
  by (simp add: idle_server_def cost_defs)

subsection \<open>Lookup tables\<close>

text \<open>
  The documented constants, and the fallback for every key that is neither written in
  the table nor a member of \<^verbatim>\<open>Object.prototype\<close>.
\<close>

lemma lookup_constants:
  "getBaselineMigrationCost ''Rehost'' = Num 500000"
  "getBaselineMigrationCost ''Replatform'' = Num 1000000"
  "getBaselineMigrationCost ''Refactor'' = Num 2000000"
  "getComplexityMultiplier ''High'' = Num 1.5"
  "getComplexityMultiplier ''Medium'' = Num 1.2"
  "getComplexityMultiplier ''Low'' = Num 1.0"
  by (simp_all add: getBaselineMigrationCost_def getComplexityMultiplier_def costs_def
      multipliers_def lookup_def js_or_def)

lemma lookup_fallbacks:
  "s \<notin> {''Rehost'', ''Replatform'', ''Refactor''} \<Longrightarrow> s \<notin> set object_prototype \<Longrightarrow>
     getBaselineMigrationCost s = Num 500000"
  "l \<notin> {''High'', ''Medium'', ''Low''} \<Longrightarrow> l \<notin> set object_prototype \<Longrightarrow>
     getComplexityMultiplier l = Num 1.0"
  by (simp_all add: getBaselineMigrationCost_def getComplexityMultiplier_def costs_def
      multipliers_def lookup_def js_or_def)

lemma lookup_inherited:
  "s \<in> set object_prototype \<Longrightarrow> getBaselineMigrationCost s = Member s"
  "l \<in> set object_prototype \<Longrightarrow> getComplexityMultiplier l = Member l"
  by (auto simp: getBaselineMigrationCost_def getComplexityMultiplier_def costs_def
      multipliers_def lookup_def js_or_def object_prototype_def)

text \<open>
  Claim C7 asks for the Rehost amount for every unrecognized strategy and for 1.0 for
  every unrecognized level. The tables of the source are object literals, and
  \<^verbatim>\<open>constructor\<close> names a member that they inherit: the read yields that function, which
  is truthy, so the fallback after \<^verbatim>\<open>||\<close> is not taken, and the migration cost of a
  server with such a label is \<^verbatim>\<open>NaN\<close>.
\<close>

theorem inherited_name_defeats_fallback:
  "getBaselineMigrationCost ''constructor'' = Member ''constructor'' \<and>
   getComplexityMultiplier ''constructor'' = Member ''constructor'' \<and>
   migrationCost (calculateServerCosts (with_strategy ''constructor'' example_server)) = NaN \<and>
   migrationCost (calculateServerCosts (with_level ''constructor'' example_server)) = NaN"
  by (simp add: cost_defs object_prototype_def with_strategy_def with_level_def
      example_server_def)

subsection \<open>Per-server breakdown\<close>


text \<open>
  Claim C6. A server with 4 cores at 50 percent utilization, 1048576 KB of storage,
  bandwidth 100 at 50 percent average usage, strategy Replatform and complexity Medium
  has compute cost 6000, storage cost 100, network cost 2500, projected monthly cost
  8600, current monthly cost 12040, migration cost 1200000 and savings 3440.
\<close>

theorem worked_example:
  assumes "cores (cpu (metrics (serverData s))) = 4"
    and "utilization (cpu (metrics (serverData s))) = 50"
    and "total_size (storage (metrics (serverData s))) = 1048576"
    and "bandwidth (networkUtilization (serverData s)) = 100"
    and "averageUsage (networkUtilization (serverData s)) = 50"
    and "strategy (migrationStrategy s) = ''Replatform''"
    and "level (complexity s) = ''Medium''"
  shows "calculateComputeCost (metrics (serverData s)) = 6000 \<and>
         calculateStorageCost (metrics (serverData s)) = 100 \<and>
         calculateNetworkCost (networkUtilization (serverData s)) = 2500 \<and>
         projectedMonthlyCost (calculateServerCosts s) = 8600 \<and>
         currentMonthlyCost (calculateServerCosts s) = 12040 \<and>
         migrationCost (calculateServerCosts s) = Finite 1200000 \<and>
         savings (calculateServerCosts s) = 3440"
  using assms by (simp add: cost_defs)

theorem worked_example_witness:
  "cores (cpu (metrics (serverData example_server))) = 4 \<and>
   utilization (cpu (metrics (serverData example_server))) = 50 \<and>
   total_size (storage (metrics (serverData example_server))) = 1048576 \<and>
   bandwidth (networkUtilization (serverData example_server)) = 100 \<and>
   averageUsage (networkUtilization (serverData example_server)) = 50 \<and>
   strategy (migrationStrategy example_server) = ''Replatform'' \<and>
   level (complexity example_server) = ''Medium'' \<and>
   calculateComputeCost (metrics (serverData example_server)) = 6000 \<and>
   calculateStorageCost (metrics (serverData example_server)) = 100 \<and>
   calculateNetworkCost (networkUtilization (serverData example_server)) = 2500 \<and>
   projectedMonthlyCost (calculateServerCosts example_server) = 8600 \<and>
   currentMonthlyCost (calculateServerCosts example_server) = 12040 \<and>
   migrationCost (calculateServerCosts example_server) = Finite 1200000 \<and>
   savings (calculateServerCosts example_server) = 3440"
proof -
  have fields:
    "cores (cpu (metrics (serverData example_server))) = 4"
    "utilization (cpu (metrics (serverData example_server))) = 50"
    "total_size (storage (metrics (serverData example_server))) = 1048576"
    "bandwidth (networkUtilization (serverData example_server)) = 100"
    "averageUsage (networkUtilization (serverData example_server)) = 50"
    "strategy (migrationStrategy example_server) = ''Replatform''"
    "level (complexity example_server) = ''Medium''"
    by (simp_all add: example_server_def)
  from worked_example [OF fields] fields show ?thesis
    by simp
qed

text \<open>
  Claim C8. For a server with more than 0 cores and a utilization between 0 and 100,
  raising the number of cores, or raising the utilization, with every other input
  unchanged, never lowers the projected monthly cost.
\<close>

theorem projected_cost_monotonic:
  assumes "0 < cores (cpu (metrics (serverData s)))"
    and "0 \<le> utilization (cpu (metrics (serverData s)))"
    and "utilization (cpu (metrics (serverData s))) \<le> 100"
  shows "(cores (cpu (metrics (serverData s))) \<le> c' \<longrightarrow>
            projectedMonthlyCost (calculateServerCosts s)
              \<le> projectedMonthlyCost (calculateServerCosts (with_cores c' s))) \<and>
         (utilization (cpu (metrics (serverData s))) \<le> u' \<longrightarrow>
            projectedMonthlyCost (calculateServerCosts s)
              \<le> projectedMonthlyCost (calculateServerCosts (with_utilization u' s)))"
proof -
  let ?c = "cores (cpu (metrics (serverData s)))"
  let ?u = "utilization (cpu (metrics (serverData s)))"
  have by_cores: "?c * costPerCore * (?u / 100) \<le> c' * costPerCore * (?u / 100)" if "?c \<le> c'"
    using that assms(2) by (simp add: costPerCore_def mult_right_mono)
  have by_util: "?c * costPerCore * (?u / 100) \<le> ?c * costPerCore * (u' / 100)" if "?u \<le> u'"
    using that assms(1) by (simp add: costPerCore_def)
  show ?thesis
    using by_cores by_util
    by (simp add: calculateServerCosts_def calculateComputeCost_def calculateStorageCost_def
        calculateNetworkCost_def with_cores_def with_utilization_def Let_def)
qed

theorem projected_cost_monotonic_witness:
  "0 < cores (cpu (metrics (serverData example_server))) \<and>
   0 \<le> utilization (cpu (metrics (serverData example_server))) \<and>
   utilization (cpu (metrics (serverData example_server))) \<le> 100 \<and>
   cores (cpu (metrics (serverData example_server))) \<le> 8 \<and>
   projectedMonthlyCost (calculateServerCosts example_server)
     \<le> projectedMonthlyCost (calculateServerCosts (with_cores 8 example_server)) \<and>
   utilization (cpu (metrics (serverData example_server))) \<le> 75 \<and>
   projectedMonthlyCost (calculateServerCosts example_server)
     \<le> projectedMonthlyCost (calculateServerCosts (with_utilization 75 example_server))"
proof -
  have bounds:
    "0 < cores (cpu (metrics (serverData example_server)))"
    "0 \<le> utilization (cpu (metrics (serverData example_server)))"
    "utilization (cpu (metrics (serverData example_server))) \<le> 100"
    by (simp_all add: example_server_def)
  have more:
    "cores (cpu (metrics (serverData example_server))) \<le> 8"
    "utilization (cpu (metrics (serverData example_server))) \<le> 75"
    by (simp_all add: example_server_def)
  from projected_cost_monotonic [OF bounds, of 8 75] bounds more show ?thesis
    by simp
qed

subsection \<open>The aggregation loop\<close>

text \<open>
  The loop of \<^verbatim>\<open>processServerCosts\<close> in closed form: three running sums, and a map
  that is updated once per server, in input order.
\<close>

lemma foldl_forEach_server:
  "foldl forEach_server (a, b, c, m) servers =
     (a + (\<Sum>s\<leftarrow>servers. migrationCost (calculateServerCosts s)),
      b + (\<Sum>s\<leftarrow>servers. projectedMonthlyCost (calculateServerCosts s)),
      c + (\<Sum>s\<leftarrow>servers. currentMonthlyCost (calculateServerCosts s)),
      foldl (\<lambda>byId s. byId(serverId (serverData s) \<mapsto> calculateServerCosts s)) m servers)"
  by (induction servers arbitrary: a b c m) (simp_all add: forEach_server_def Let_def add.assoc)

lemma byId_last:
  "\<exists>s \<in> set servers. serverId (serverData s) = k \<Longrightarrow>
   foldl (\<lambda>byId s. byId(serverId (serverData s) \<mapsto> calculateServerCosts s)) m servers k =
     Some (calculateServerCosts (last (filter (\<lambda>s. serverId (serverData s) = k) servers)))"
proof (induction servers rule: rev_induct)
  case Nil
  then show ?case by simp
next
  case (snoc x xs)
  show ?case
  proof (cases "serverId (serverData x) = k")
    case True
    then show ?thesis by simp
  next
    case False
    with snoc.prems have "\<exists>s \<in> set xs. serverId (serverData s) = k" by auto
    with snoc.IH False show ?thesis by simp
  qed
qed

lemma processServerCosts_totals:
  "totalMigrationCost (processServerCosts servers) =
     (\<Sum>s\<leftarrow>servers. migrationCost (calculateServerCosts s))"
  "monthlyCloudCost (processServerCosts servers) =
     (\<Sum>s\<leftarrow>servers. projectedMonthlyCost (calculateServerCosts s))"
  "currentCosts (processServerCosts servers) =
     (\<Sum>s\<leftarrow>servers. currentMonthlyCost (calculateServerCosts s))"
  by (simp_all add: processServerCosts_def foldl_forEach_server Let_def)

lemma processServerCosts_serverCosts:
  "serverCosts (processServerCosts servers) =
     foldl (\<lambda>byId s. byId(serverId (serverData s) \<mapsto> calculateServerCosts s)) Map.empty servers"
  by (simp add: processServerCosts_def foldl_forEach_server Let_def)

lemma processServerCosts_monthlySavings:
  "monthlySavings (processServerCosts servers) =
     currentCosts (processServerCosts servers) - monthlyCloudCost (processServerCosts servers)"
  by (simp add: processServerCosts_def foldl_forEach_server Let_def)


lemma currentCosts_markup:
  "currentCosts (processServerCosts servers) = monthlyCloudCost (processServerCosts servers) * 1.4"
proof -
  have "currentMonthlyCost (calculateServerCosts s) =
          projectedMonthlyCost (calculateServerCosts s) * 1.4" for s
    by (simp add: calculateServerCosts_def Let_def)
  then show ?thesis
    by (simp only: processServerCosts_totals sum_list_mult_const)
qed

lemma example_ids:
  "serverId (serverData example_server) = ''srv-1''"
  "serverId (serverData (with_cores c example_server)) = ''srv-1''"
  "serverId (serverData idle_server) = ''srv-2''"
  by (simp_all add: example_server_def idle_server_def with_cores_def)




lemma idle_portfolio:
  "processServerCosts [idle_server] =
     \<lparr>totalMigrationCost = Finite 500000, monthlyCloudCost = 0, currentCosts = 0,
      monthlySavings = 0, roiMonths = Finite 0,
      serverCosts = [''srv-2'' \<mapsto> calculateServerCosts idle_server]\<rparr>"
  by (simp add: processServerCosts_def forEach_server_def idle_server_costs example_ids)

lemma duplicate_portfolio:
  "processServerCosts [example_server, with_cores 8 example_server] =
     \<lparr>totalMigrationCost = Finite 2400000, monthlyCloudCost = 23200, currentCosts = 32480,
      monthlySavings = 9280, roiMonths = Finite 259,
      serverCosts = [''srv-1'' \<mapsto> calculateServerCosts (with_cores 8 example_server)]\<rparr>"
  by (simp add: processServerCosts_def forEach_server_def example_server_costs
      example_server_8_cores_costs example_ids js_quot_def js_div_def js_ceil_def)

subsection \<open>Portfolio totals\<close>

text \<open>
  Claim C1, as stated, does not hold: for the empty sequence of servers
  \<^verbatim>\<open>processServerCosts\<close> does not fail, it returns this result object.
\<close>

theorem empty_portfolio_counterexample:
  "processServerCosts [] =
     \<lparr>totalMigrationCost = Finite 0, monthlyCloudCost = 0, currentCosts = 0,
      monthlySavings = 0, roiMonths = Finite 0, serverCosts = Map.empty\<rparr>"
  by (simp add: processServerCosts_def)

text \<open>
  Claim C1, amended. For the empty sequence of servers \<^verbatim>\<open>processServerCosts\<close> does
  not fail: it returns a result whose three totals, monthly savings and ROI months are 0
  and whose per-server mapping has no key.
\<close>

theorem empty_portfolio_returns_zeros:
  "totalMigrationCost (processServerCosts []) = Finite 0 \<and>
   monthlyCloudCost (processServerCosts []) = 0 \<and>
   currentCosts (processServerCosts []) = 0 \<and>
   monthlySavings (processServerCosts []) = 0 \<and>
   roiMonths (processServerCosts []) = Finite 0 \<and>
   dom (serverCosts (processServerCosts [])) = {}"
  by (simp add: processServerCosts_def)



text \<open>
  Claim C9. When servers share a \<^verbatim>\<open>serverId\<close>, the per-server mapping holds, for that
  id, the breakdown of the last such server in input order, and each of the three totals
  is the sum over every server of the sequence, duplicates included.
\<close>

theorem duplicate_ids_last_wins_totals_sum_all:
  "((\<exists>s \<in> set servers. serverId (serverData s) = k) \<longrightarrow>
      serverCosts (processServerCosts servers) k =
        Some (calculateServerCosts (last (filter (\<lambda>s. serverId (serverData s) = k) servers)))) \<and>
   totalMigrationCost (processServerCosts servers) =
     (\<Sum>s\<leftarrow>servers. migrationCost (calculateServerCosts s)) \<and>
   monthlyCloudCost (processServerCosts servers) =
     (\<Sum>s\<leftarrow>servers. projectedMonthlyCost (calculateServerCosts s)) \<and>
   currentCosts (processServerCosts servers) =
     (\<Sum>s\<leftarrow>servers. currentMonthlyCost (calculateServerCosts s))"
  by (simp add: processServerCosts_totals processServerCosts_serverCosts byId_last)

theorem duplicate_ids_witness:
  "(\<exists>s \<in> set [example_server, with_cores 8 example_server]. serverId (serverData s) = ''srv-1'') \<and>
   serverCosts (processServerCosts [example_server, with_cores 8 example_server]) ''srv-1'' =
     Some \<lparr>projectedMonthlyCost = 14600, currentMonthlyCost = 20440,
           migrationCost = Finite 1200000, savings = 5840\<rparr> \<and>
   totalMigrationCost (processServerCosts [example_server, with_cores 8 example_server]) =
     Finite 2400000 \<and>
   monthlyCloudCost (processServerCosts [example_server, with_cores 8 example_server]) =
     8600 + 14600 \<and>
   currentCosts (processServerCosts [example_server, with_cores 8 example_server]) =
     12040 + 20440"
proof -
  have dup: "\<exists>s \<in> set [example_server, with_cores 8 example_server].
               serverId (serverData s) = ''srv-1''"
    by (simp add: example_ids)
  from duplicate_ids_last_wins_totals_sum_all
         [of "[example_server, with_cores 8 example_server]" "''srv-1''"] dup
  show ?thesis
    by (simp add: example_ids example_server_costs example_server_8_cores_costs)
qed

subsection \<open>Cost-reduction percentage\<close>

text \<open>
  With current costs of 0 the quotient of \<^verbatim>\<open>displayCostAnalysis\<close> is 0 / 0: the 1.4
  markup makes the monthly cloud cost 0 as well.
\<close>

lemma costReduction_zero_currentCosts:
  "currentCosts (processServerCosts servers) = 0 \<Longrightarrow>
   costReduction (displayCostAnalysis (processServerCosts servers)) = NaN"
  using currentCosts_markup [of servers]
  by (simp add: displayCostAnalysis_def js_div_def js_times_def)

text \<open>
  Claim C2 asks for a guard: with current costs of 0 the percentage is to be 0 or a
  failure, never \<^verbatim>\<open>NaN\<close>. The source has no guard. For the portfolio of one idle
  server the current costs are 0 and the percentage is \<^verbatim>\<open>NaN\<close>.
\<close>

theorem costReduction_idle_server:
  "currentCosts (processServerCosts [idle_server]) = 0 \<and>
   costReduction (displayCostAnalysis (processServerCosts [idle_server])) = NaN"
  by (simp add: idle_portfolio displayCostAnalysis_def js_div_def js_times_def)

subsection \<open>Roadmap\<close>

text \<open>
  Past the guard the source reads \<^verbatim>\<open>roadmap.projectSummary.duration\<close>: a roadmap with a
  timeline and no project summary raises, whether or not the timeline is empty.
\<close>

lemma timeline_without_summary_raises:
  "displayMigrationRoadmap (Some \<lparr>projectSummary = None, timeline = Some phases\<rparr>)
     = Inl TypeError"
  by (simp add: displayMigrationRoadmap_def)

text \<open>
  Claim C3, as stated, does not hold for the empty sequence: a roadmap whose timeline is
  present and empty is not reported as unavailable.
\<close>

theorem empty_timeline_counterexample:
  "displayMigrationRoadmap (Some \<lparr>projectSummary = Some example_summary, timeline = Some []\<rparr>)
     \<noteq> Inr Unavailable"
  by (simp add: displayMigrationRoadmap_def)

text \<open>
  Claim C3, amended. When the roadmap is absent, or its timeline is absent,
  \<^verbatim>\<open>displayMigrationRoadmap\<close> returns the "unavailable" block and raises nothing. When
  the timeline is present and empty and the project summary is present, it returns the
  summary header with an empty list of phases.
\<close>

theorem absent_timeline_unavailable:
  "displayMigrationRoadmap None = Inr Unavailable \<and>
   displayMigrationRoadmap (Some \<lparr>projectSummary = summary, timeline = None\<rparr>) = Inr Unavailable \<and>
   displayMigrationRoadmap (Some \<lparr>projectSummary = Some ps, timeline = Some []\<rparr>)
     = Inr (Rendered ps [])"
  by (simp add: displayMigrationRoadmap_def)

subsection \<open>Rounding to the nearest double\<close>

lemma exponent_ge1:
  assumes "1 \<le> \<bar>x\<bar>"
  shows "2 powi exponent x \<le> \<bar>x\<bar>" "\<bar>x\<bar> < 2 powi (exponent x + 1)"
proof -
  let ?n = "\<lfloor>\<bar>x\<bar>\<rfloor>"
  have n: "0 < ?n" using assms by simp
  from bitlen_bounds [OF n]
  have lo: "2 ^ nat (bitlen ?n - 1) \<le> ?n" and hi: "?n < 2 ^ nat (bitlen ?n)" by auto
  have b: "1 \<le> bitlen ?n"
    using n bitlen_nonneg [of ?n] bitlen_eq_zero_iff [of ?n] by linarith
  have e: "exponent x = bitlen ?n - 1" using assms by (simp add: exponent_def)
  have "2 powi exponent x = (2::real) ^ nat (bitlen ?n - 1)"
    using b by (simp add: e power_int_def)
  also have "\<dots> = of_int (2 ^ nat (bitlen ?n - 1))" by simp
  also have "\<dots> \<le> of_int ?n" using lo by (simp only: of_int_le_iff)
  also have "\<dots> \<le> \<bar>x\<bar>" by simp
  finally show "2 powi exponent x \<le> \<bar>x\<bar>" .
  have "?n + 1 \<le> 2 ^ nat (bitlen ?n)" using hi by simp
  then have "of_int (?n + 1) \<le> (of_int (2 ^ nat (bitlen ?n)) :: real)"
    by (simp only: of_int_le_iff)
  then have A: "of_int ?n + 1 \<le> (2::real) ^ nat (bitlen ?n)" by simp
  have B: "\<bar>x\<bar> < of_int ?n + 1" by linarith
  from A B have "\<bar>x\<bar> < (2::real) ^ nat (bitlen ?n)" by linarith
  moreover have "2 powi (exponent x + 1) = (2::real) ^ nat (bitlen ?n)"
    using b by (simp add: e power_int_def)
  ultimately show "\<bar>x\<bar> < 2 powi (exponent x + 1)" by simp
qed

lemma exponent_lt1:
  assumes "x \<noteq> 0" "\<bar>x\<bar> < 1"
  shows "2 powi exponent x \<le> \<bar>x\<bar>" "\<bar>x\<bar> < 2 powi (exponent x + 1)"
proof -
  let ?y = "1 / \<bar>x\<bar>"
  let ?m = "\<lceil>?y\<rceil> - 1"
  have y: "1 < ?y" using assms by simp
  have m: "0 < ?m" using y by linarith
  from bitlen_bounds [OF m]
  have lo: "2 ^ nat (bitlen ?m - 1) \<le> ?m" and hi: "?m < 2 ^ nat (bitlen ?m)" by auto
  have b: "1 \<le> bitlen ?m"
    using m bitlen_nonneg [of ?m] bitlen_eq_zero_iff [of ?m] by linarith
  have e: "exponent x = - bitlen ?m" using assms by (simp add: exponent_def)
  have "?m + 1 \<le> 2 ^ nat (bitlen ?m)" using hi by simp
  then have "of_int (?m + 1) \<le> (of_int (2 ^ nat (bitlen ?m)) :: real)"
    by (simp only: of_int_le_iff)
  then have A: "of_int ?m + 1 \<le> (2::real) ^ nat (bitlen ?m)" by simp
  have B: "?y \<le> of_int ?m + 1" by simp
  from A B have yle: "?y \<le> 2 ^ nat (bitlen ?m)" by linarith
  have p: "2 powi exponent x = 1 / (2::real) ^ nat (bitlen ?m)"
    using b by (simp add: e power_int_def field_simps)
  have xpos: "0 < \<bar>x\<bar>" using assms by simp
  have "1 / (2::real) ^ nat (bitlen ?m) \<le> \<bar>x\<bar>"
    using yle xpos by (simp add: field_simps)
  then show "2 powi exponent x \<le> \<bar>x\<bar>" using p by simp
  have "of_int (2 ^ nat (bitlen ?m - 1)) \<le> (of_int ?m :: real)"
    using lo by (simp only: of_int_le_iff)
  moreover have "of_int ?m < ?y" by linarith
  ultimately have ylt: "2 ^ nat (bitlen ?m - 1) < ?y" by simp
  have q: "2 powi (exponent x + 1) = 1 / (2::real) ^ nat (bitlen ?m - 1)"
    using b by (simp add: e power_int_def field_simps nat_diff_distrib)
  have "\<bar>x\<bar> < 1 / (2::real) ^ nat (bitlen ?m - 1)"
    using ylt xpos by (simp add: field_simps)
  then show "\<bar>x\<bar> < 2 powi (exponent x + 1)" using q by simp
qed

lemma exponent_bounds:
  assumes "x \<noteq> 0"
  shows "2 powi exponent x \<le> \<bar>x\<bar>" "\<bar>x\<bar> < 2 powi (exponent x + 1)"
  using assms exponent_ge1 [of x] exponent_lt1 [of x] by (cases "1 \<le> \<bar>x\<bar>"; simp)+

lemma two_powi_less_cancel:
  assumes "(2::real) powi a < 2 powi b"
  shows "a < b"
proof (rule ccontr)
  assume "\<not> a < b"
  then have "b \<le> a" by simp
  then have "(2::real) powi b \<le> 2 powi a" by (intro power_int_increasing) simp_all
  with assms show False by simp
qed

lemma exponent_mono:
  assumes "x \<noteq> 0" "y \<noteq> 0" "\<bar>x\<bar> \<le> \<bar>y\<bar>"
  shows "exponent x \<le> exponent y"
proof -
  have "2 powi exponent x \<le> \<bar>x\<bar>" using assms(1) by (rule exponent_bounds)
  also have "\<dots> \<le> \<bar>y\<bar>" by fact
  also have "\<dots> < 2 powi (exponent y + 1)" using assms(2) by (rule exponent_bounds)
  finally have "exponent x < exponent y + 1" by (rule two_powi_less_cancel)
  then show ?thesis by simp
qed

lemma exponent_eqI:
  assumes "2 powi e \<le> \<bar>x\<bar>" "\<bar>x\<bar> < 2 powi (e + 1)"
  shows "exponent x = e"
proof -
  have nz: "x \<noteq> 0"
  proof
    assume "x = 0"
    with assms(1) have "2 powi e \<le> (0::real)" by simp
    moreover have "0 < (2::real) powi e" by simp
    ultimately show False by linarith
  qed
  have "2 powi e < (2::real) powi (exponent x + 1)"
    using assms(1) exponent_bounds(2) [OF nz] by linarith
  then have a: "e < exponent x + 1" by (rule two_powi_less_cancel)
  have "2 powi exponent x < (2::real) powi (e + 1)"
    using assms(2) exponent_bounds(1) [OF nz] by linarith
  then have "exponent x < e + 1" by (rule two_powi_less_cancel)
  with a show ?thesis by simp
qed

lemma round_half_even_of_int [simp]: "round_half_even (of_int k) = k"
  by (simp add: round_half_even_def)

lemma round_half_even_numeral [simp]: "round_half_even (numeral n) = numeral n"
  using round_half_even_of_int [of "numeral n"] by simp

lemma round_half_even_range:
  "\<lfloor>y\<rfloor> \<le> round_half_even y" "round_half_even y \<le> \<lfloor>y\<rfloor> + 1"
  by (simp_all add: round_half_even_def Let_def)

lemma round_half_even_mono:
  assumes "x \<le> y"
  shows "round_half_even x \<le> round_half_even y"
proof (cases "\<lfloor>x\<rfloor> = \<lfloor>y\<rfloor>")
  case True
  with assms show ?thesis
    by (auto simp: round_half_even_def Let_def)
next
  case False
  with assms have "\<lfloor>x\<rfloor> + 1 \<le> \<lfloor>y\<rfloor>"
    using floor_mono [of x y] by linarith
  with round_half_even_range(2) [of x] round_half_even_range(1) [of y] show ?thesis
    by linarith
qed

lemma ulp_pos [simp]: "0 < ulp x"
  by (simp add: ulp_def)

lemma ulp_nonneg [simp]: "0 \<le> ulp x"
  by (simp add: ulp_def)

lemma ulp_nonzero [simp]: "ulp x \<noteq> 0"
  by (simp add: ulp_def)

lemma ulp_powers:
  "2 powi exponent x = ulp x * 2 ^ 52" "2 powi (exponent x + 1) = ulp x * 2 ^ 53"
proof -
  have a: "exponent x = (exponent x - 52) + 52" and b: "exponent x + 1 = (exponent x - 52) + 53"
    by simp_all
  have "(2::real) powi ((exponent x - 52) + 52) = 2 powi (exponent x - 52) * 2 powi 52"
    by (intro power_int_add) simp
  then show "2 powi exponent x = ulp x * 2 ^ 52"
    unfolding ulp_def a [symmetric] by simp
  have "(2::real) powi ((exponent x - 52) + 53) = 2 powi (exponent x - 52) * 2 powi 53"
    by (intro power_int_add) simp
  then show "2 powi (exponent x + 1) = ulp x * 2 ^ 53"
    unfolding ulp_def b [symmetric] by simp
qed

lemma scaled_bounds:
  assumes "x \<noteq> 0"
  shows "2 ^ 52 \<le> \<bar>x\<bar> / ulp x" "\<bar>x\<bar> / ulp x < 2 ^ 53"
proof -
  from exponent_bounds [OF assms]
  have "ulp x * 2 ^ 52 \<le> \<bar>x\<bar>" and "\<bar>x\<bar> < ulp x * 2 ^ 53"
    unfolding ulp_powers by simp_all
  then show "2 ^ 52 \<le> \<bar>x\<bar> / ulp x" "\<bar>x\<bar> / ulp x < 2 ^ 53"
    by (simp_all add: field_simps)
qed

lemma binary64_pos_bounds:
  assumes "0 < x"
  shows "2 powi exponent x \<le> binary64 x" "binary64 x \<le> 2 powi (exponent x + 1)"
proof -
  have nz: "x \<noteq> 0" using assms by simp
  from scaled_bounds [OF nz] assms
  have lo: "of_int (2 ^ 52) \<le> x / ulp x" and hi: "x / ulp x \<le> of_int (2 ^ 53)" by simp_all
  from round_half_even_mono [OF lo] have "2 ^ 52 \<le> round_half_even (x / ulp x)"
    by (simp only: round_half_even_of_int)
  then have "of_int (2 ^ 52) \<le> (of_int (round_half_even (x / ulp x)) :: real)"
    by (simp only: of_int_le_iff)
  then have "2 ^ 52 * ulp x \<le> of_int (round_half_even (x / ulp x)) * ulp x"
    by (intro mult_right_mono) simp_all
  then show "2 powi exponent x \<le> binary64 x"
    using nz by (simp add: binary64_def ulp_powers mult.commute)
  from round_half_even_mono [OF hi] have "round_half_even (x / ulp x) \<le> 2 ^ 53"
    by (simp only: round_half_even_of_int)
  then have "(of_int (round_half_even (x / ulp x)) :: real) \<le> of_int (2 ^ 53)"
    by (simp only: of_int_le_iff)
  then have "of_int (round_half_even (x / ulp x)) * ulp x \<le> 2 ^ 53 * ulp x"
    by (intro mult_right_mono) simp_all
  then show "binary64 x \<le> 2 powi (exponent x + 1)"
    using nz by (simp add: binary64_def ulp_powers mult.commute)
qed

lemma binary64_neg_bounds:
  assumes "x < 0"
  shows "- (2 powi (exponent x + 1)) \<le> binary64 x" "binary64 x \<le> - (2 powi exponent x)"
proof -
  have nz: "x \<noteq> 0" using assms by simp
  from scaled_bounds [OF nz] assms
  have hi: "x / ulp x \<le> of_int (- (2 ^ 52))" and lo: "of_int (- (2 ^ 53)) \<le> x / ulp x"
    by (simp_all add: field_simps)
  from round_half_even_mono [OF lo] have "- (2 ^ 53) \<le> round_half_even (x / ulp x)"
    by (simp only: round_half_even_of_int)
  then have "of_int (- (2 ^ 53)) \<le> (of_int (round_half_even (x / ulp x)) :: real)"
    by (simp only: of_int_le_iff)
  then have "- (2 ^ 53) * ulp x \<le> of_int (round_half_even (x / ulp x)) * ulp x"
    by (intro mult_right_mono) simp_all
  then show "- (2 powi (exponent x + 1)) \<le> binary64 x"
    using nz by (simp add: binary64_def ulp_powers mult.commute)
  from round_half_even_mono [OF hi] have "round_half_even (x / ulp x) \<le> - (2 ^ 52)"
    by (simp only: round_half_even_of_int)
  then have "(of_int (round_half_even (x / ulp x)) :: real) \<le> of_int (- (2 ^ 52))"
    by (simp only: of_int_le_iff)
  then have "of_int (round_half_even (x / ulp x)) * ulp x \<le> - (2 ^ 52) * ulp x"
    by (intro mult_right_mono) simp_all
  then show "binary64 x \<le> - (2 powi exponent x)"
    using nz by (simp add: binary64_def ulp_powers mult.commute)
qed

lemma binary64_zero [simp]: "binary64 0 = 0"
  by (simp add: binary64_def)

lemma binary64_nonneg: "0 \<le> x \<Longrightarrow> 0 \<le> binary64 x"
proof (cases "x = 0")
  case False
  assume "0 \<le> x"
  with False have "0 < x" by simp
  from binary64_pos_bounds(1) [OF this] have "2 powi exponent x \<le> binary64 x" .
  moreover have "0 < (2::real) powi exponent x" by simp
  ultimately show ?thesis by linarith
qed simp

lemma binary64_nonpos: "x \<le> 0 \<Longrightarrow> binary64 x \<le> 0"
proof (cases "x = 0")
  case False
  assume "x \<le> 0"
  with False have "x < 0" by simp
  from binary64_neg_bounds(2) [OF this] have "binary64 x \<le> - (2 powi exponent x)" .
  moreover have "0 < (2::real) powi exponent x" by simp
  ultimately show ?thesis by linarith
qed simp

lemma binary64_mono_same:
  assumes "x \<le> y" "x \<noteq> 0" "y \<noteq> 0" "exponent x = exponent y"
  shows "binary64 x \<le> binary64 y"
proof -
  have u: "ulp x = ulp y" using assms(4) by (simp add: ulp_def)
  have "x / ulp y \<le> y / ulp y" using assms(1) by (intro divide_right_mono) simp_all
  from round_half_even_mono [OF this]
  have "(of_int (round_half_even (x / ulp y)) :: real) \<le> of_int (round_half_even (y / ulp y))"
    by (simp only: of_int_le_iff)
  then have "of_int (round_half_even (x / ulp y)) * ulp y
               \<le> of_int (round_half_even (y / ulp y)) * ulp y"
    by (intro mult_right_mono) simp_all
  then show ?thesis using assms(2,3) by (simp add: binary64_def u)
qed

lemma binary64_mono:
  assumes "x \<le> y"
  shows "binary64 x \<le> binary64 y"
proof -
  consider "x \<le> 0" "0 \<le> y" | "0 < x" | "y < 0" using assms by linarith
  then show ?thesis
  proof cases
    case 1
    then show ?thesis using binary64_nonpos [of x] binary64_nonneg [of y] by linarith
  next
    case 2
    with assms have y: "0 < y" by simp
    have "exponent x \<le> exponent y" using 2 y assms by (intro exponent_mono) simp_all
    then consider "exponent x = exponent y" | "exponent x + 1 \<le> exponent y" by linarith
    then show ?thesis
    proof cases
      case 1
      then show ?thesis using assms 2 y by (intro binary64_mono_same) simp_all
    next
      case 2
      have "binary64 x \<le> 2 powi (exponent x + 1)" using \<open>0 < x\<close> by (rule binary64_pos_bounds)
      also have "\<dots> \<le> 2 powi exponent y" using 2 by (intro power_int_increasing) simp_all
      also have "\<dots> \<le> binary64 y" using y by (rule binary64_pos_bounds)
      finally show ?thesis .
    qed
  next
    case 3
    with assms have x: "x < 0" by simp
    have "exponent y \<le> exponent x" using 3 x assms by (intro exponent_mono) simp_all
    then consider "exponent x = exponent y" | "exponent y + 1 \<le> exponent x" by linarith
    then show ?thesis
    proof cases
      case 1
      then show ?thesis using assms 3 x by (intro binary64_mono_same) simp_all
    next
      case 2
      then have "(2::real) powi (exponent y + 1) \<le> 2 powi exponent x"
        by (intro power_int_increasing) simp_all
      moreover have "binary64 x \<le> - (2 powi exponent x)" using x by (rule binary64_neg_bounds)
      moreover have "- (2 powi (exponent y + 1)) \<le> binary64 y"
        using \<open>y < 0\<close> by (rule binary64_neg_bounds)
      ultimately show ?thesis by linarith
    qed
  qed
qed

lemma round_half_even_minus: "round_half_even (- y) = - round_half_even y"
proof (cases "y = of_int \<lfloor>y\<rfloor>")
  case True
  then obtain k where "y = of_int k" ..
  then have "- y = of_int (- k)" by simp
  then show ?thesis unfolding \<open>y = of_int k\<close> by (simp only: round_half_even_of_int)
next
  case False
  then have "\<lfloor>- y\<rfloor> = - \<lfloor>y\<rfloor> - 1"
    by (simp add: floor_minus ceiling_altdef)
  then show ?thesis
    by (auto simp: round_half_even_def Let_def)
qed

lemma exponent_minus [simp]: "exponent (- x) = exponent x"
  by (simp add: exponent_def)

lemma binary64_minus: "binary64 (- x) = - binary64 x"
  by (simp add: binary64_def ulp_def round_half_even_minus)

lemma binary64_idem_pos:
  assumes "0 < x"
  shows "binary64 (binary64 x) = binary64 x"
proof -
  let ?k = "round_half_even (x / ulp x)"
  have nz: "x \<noteq> 0" using assms by simp
  have fx: "binary64 x = of_int ?k * ulp x" using nz by (simp add: binary64_def)
  from binary64_pos_bounds [OF assms]
  have lo: "ulp x * 2 ^ 52 \<le> of_int ?k * ulp x" and hi: "of_int ?k * ulp x \<le> ulp x * 2 ^ 53"
    unfolding ulp_powers fx by simp_all
  have "0 < ulp x * 2 ^ 52" by simp
  with lo have pos: "0 < of_int ?k * ulp x" by linarith
  show ?thesis
  proof (cases "of_int ?k * ulp x < ulp x * 2 ^ 53")
    case True
    have "exponent (of_int ?k * ulp x) = exponent x"
      using lo True pos by (intro exponent_eqI) (simp_all add: ulp_powers)
    then have "ulp (of_int ?k * ulp x) = ulp x" by (simp add: ulp_def)
    then show ?thesis using pos by (simp add: fx binary64_def)
  next
    case False
    with hi have eq: "of_int ?k * ulp x = ulp x * 2 ^ 53" by simp
    have p: "ulp x * 2 ^ 53 = 2 powi (exponent x + 1)" by (simp add: ulp_powers)
    have "(2::real) powi (exponent x + 1) < 2 powi (exponent x + 1 + 1)"
      by (intro power_int_strict_increasing) simp_all
    then have e: "exponent (2 powi (exponent x + 1)) = exponent x + 1"
      by (intro exponent_eqI) simp_all
    have u: "ulp (2 powi (exponent x + 1)) = ulp x * 2"
    proof -
      have eq1: "exponent x + 1 - 52 = (exponent x - 52) + 1" by simp
      have "(2::real) powi ((exponent x - 52) + 1) = 2 powi (exponent x - 52) * 2 powi 1"
        by (intro power_int_add) simp
      then show ?thesis unfolding ulp_def e eq1 by simp
    qed
    have "binary64 (2 powi (exponent x + 1)) = 2 powi (exponent x + 1)"
    proof -
      have "(2::real) powi (exponent x + 1) / (ulp x * 2) = of_int (2 ^ 52)"
        unfolding ulp_powers by simp
      then show ?thesis
        unfolding binary64_def u by (simp add: ulp_powers del: of_int_power)
    qed
    then show ?thesis unfolding fx eq p .
  qed
qed

lemma binary64_idem: "binary64 (binary64 x) = binary64 x"
proof -
  consider "x = 0" | "0 < x" | "x < 0" by linarith
  then show ?thesis
  proof cases
    case 1
    then show ?thesis by simp
  next
    case 2
    then show ?thesis by (rule binary64_idem_pos)
  next
    case 3
    then have "0 < - x" by simp
    from binary64_idem_pos [OF this] show ?thesis by (simp add: binary64_minus)
  qed
qed

subsection \<open>The monthly figures in doubles\<close>

lemma markup64: "binary64 1.4 = 6305039478318694 / 2 ^ 52"
  by code_simp

lemma markup64_ge_1: "1 \<le> binary64 1.4"
  unfolding markup64 by simp

lemma projected64_is_double:
  "binary64 (projectedMonthlyCost (calculateServerCosts64 s)) =
     projectedMonthlyCost (calculateServerCosts64 s)"
  by (simp add: calculateServerCosts64_def Let_def binary64_idem)

lemma current64_def':
  "currentMonthlyCost (calculateServerCosts64 s) =
     binary64 (projectedMonthlyCost (calculateServerCosts64 s) * binary64 1.4)"
  by (simp add: calculateServerCosts64_def Let_def)

lemma savings64_def':
  "savings (calculateServerCosts64 s) =
     binary64 (currentMonthlyCost (calculateServerCosts64 s)
                 - projectedMonthlyCost (calculateServerCosts64 s))"
  by (simp add: calculateServerCosts64_def Let_def)

lemma current64_ge_projected64:
  assumes "0 \<le> projectedMonthlyCost (calculateServerCosts64 s)"
  shows "projectedMonthlyCost (calculateServerCosts64 s)
           \<le> currentMonthlyCost (calculateServerCosts64 s)"
proof -
  let ?p = "projectedMonthlyCost (calculateServerCosts64 s)"
  have "?p * 1 \<le> ?p * binary64 1.4"
    using assms markup64_ge_1 by (intro mult_left_mono) simp_all
  then have "binary64 ?p \<le> binary64 (?p * binary64 1.4)"
    by (intro binary64_mono) simp
  then show ?thesis
    by (simp only: projected64_is_double current64_def')
qed

lemma foldl_forEach_server64:
  "foldl forEach_server64 (a, b, c, m) servers =
     (foldl (\<lambda>t s. round64 (t + migrationCost (calculateServerCosts64 s))) a servers,
      foldl (\<lambda>t s. binary64 (t + projectedMonthlyCost (calculateServerCosts64 s))) b servers,
      foldl (\<lambda>t s. binary64 (t + currentMonthlyCost (calculateServerCosts64 s))) c servers,
      foldl (\<lambda>byId s. byId(serverId (serverData s) \<mapsto> calculateServerCosts64 s)) m servers)"
  by (induction servers arbitrary: a b c m) (simp_all add: forEach_server64_def Let_def)

lemma processServerCosts64_monthly:
  "monthlyCloudCost (processServerCosts64 servers) =
     foldl (\<lambda>t s. binary64 (t + projectedMonthlyCost (calculateServerCosts64 s))) 0 servers"
  "currentCosts (processServerCosts64 servers) =
     foldl (\<lambda>t s. binary64 (t + currentMonthlyCost (calculateServerCosts64 s))) 0 servers"
  "monthlySavings (processServerCosts64 servers) =
     binary64 (currentCosts (processServerCosts64 servers)
                 - monthlyCloudCost (processServerCosts64 servers))"
  by (simp_all add: processServerCosts64_def foldl_forEach_server64 Let_def)

lemma rounded_sums_mono:
  assumes "\<forall>x \<in> set xs. f x \<le> g x" "b \<le> c"
  shows "foldl (\<lambda>t x. binary64 (t + f x)) b xs \<le> foldl (\<lambda>t x. binary64 (t + g x)) c xs"
  using assms
proof (induction xs arbitrary: b c)
  case Nil
  then show ?case by simp
next
  case (Cons x xs)
  have "binary64 (b + f x) \<le> binary64 (c + g x)"
    using Cons.prems by (intro binary64_mono) simp
  with Cons.prems show ?case
    by (simp add: Cons.IH)
qed

text \<open>
  The example server at 75 percent utilization: the projected monthly cost is 11600, the
  current one is the double next below 16240, and the savings are the double next below
  4640, whereas 0.4 times 11600 is 4640, in doubles as in exact arithmetic.
\<close>

lemma three_quarter_server64:
  "calculateServerCosts64 (with_utilization 75 example_server) =
     \<lparr>projectedMonthlyCost = 11600,
      currentMonthlyCost = 8928034417541119 / 2 ^ 39,
      migrationCost = Finite 1200000,
      savings = 2550866976440319 / 2 ^ 39\<rparr>"
  by code_simp

lemma idle_server64:
  "calculateServerCosts64 idle_server =
     \<lparr>projectedMonthlyCost = 0, currentMonthlyCost = 0,
      migrationCost = Finite 500000, savings = 0\<rparr>"
  by code_simp

lemma forty_percent_of_11600: "binary64 (binary64 0.4 * 11600) = 4640"
  by code_simp

lemma single_server_portfolio64:
  "monthlyCloudCost (processServerCosts64 [s]) = projectedMonthlyCost (calculateServerCosts64 s)"
  "monthlySavings (processServerCosts64 [s]) = savings (calculateServerCosts64 s)"
proof -
  have c: "binary64 (currentMonthlyCost (calculateServerCosts64 s)) =
             currentMonthlyCost (calculateServerCosts64 s)"
    by (simp add: current64_def' binary64_idem)
  show "monthlyCloudCost (processServerCosts64 [s]) =
          projectedMonthlyCost (calculateServerCosts64 s)"
    by (simp add: processServerCosts64_monthly projected64_is_double)
  then show "monthlySavings (processServerCosts64 [s]) = savings (calculateServerCosts64 s)"
    by (simp add: processServerCosts64_monthly projected64_is_double c savings64_def')
qed

lemma three_quarter_portfolio64:
  "monthlyCloudCost (processServerCosts64 [with_utilization 75 example_server]) = 11600"
  "monthlySavings (processServerCosts64 [with_utilization 75 example_server])
     = 2550866976440319 / 2 ^ 39"
  by (simp_all add: single_server_portfolio64 three_quarter_server64)

text \<open>
  Claim C10, as stated, does not hold: at 75 percent utilization the savings of the
  example server, and the monthly savings of the portfolio of that server alone, are
  not 0.4 times the projected cost, whether that product is rounded or exact.
\<close>

theorem savings_not_forty_percent_counterexample:
  "0 \<le> projectedMonthlyCost (calculateServerCosts64 (with_utilization 75 example_server)) \<and>
   savings (calculateServerCosts64 (with_utilization 75 example_server))
     \<noteq> binary64 (binary64 0.4
          * projectedMonthlyCost (calculateServerCosts64 (with_utilization 75 example_server))) \<and>
   savings (calculateServerCosts64 (with_utilization 75 example_server))
     \<noteq> 0.4 * projectedMonthlyCost (calculateServerCosts64 (with_utilization 75 example_server)) \<and>
   monthlySavings (processServerCosts64 [with_utilization 75 example_server])
     \<noteq> binary64 (binary64 0.4
          * monthlyCloudCost (processServerCosts64 [with_utilization 75 example_server])) \<and>
   monthlySavings (processServerCosts64 [with_utilization 75 example_server])
     \<noteq> 0.4 * monthlyCloudCost (processServerCosts64 [with_utilization 75 example_server])"
proof -
  have p: "projectedMonthlyCost (calculateServerCosts64 (with_utilization 75 example_server))
             = 11600"
    and s: "savings (calculateServerCosts64 (with_utilization 75 example_server))
             = 2550866976440319 / 2 ^ 39"
    by (simp_all add: three_quarter_server64)
  show ?thesis
    unfolding p s three_quarter_portfolio64 forty_percent_of_11600 by simp
qed

text \<open>
  Claim C10, amended. In the doubles that the code computes with, the savings of a
  server are not negative when its projected monthly cost is not negative, and the
  monthly savings of a portfolio are not negative when no server has a negative
  projected monthly cost.
\<close>

theorem savings_never_negative:
  "(0 \<le> projectedMonthlyCost (calculateServerCosts64 s) \<longrightarrow>
      0 \<le> savings (calculateServerCosts64 s)) \<and>
   ((\<forall>x \<in> set servers. 0 \<le> projectedMonthlyCost (calculateServerCosts64 x)) \<longrightarrow>
      0 \<le> monthlySavings (processServerCosts64 servers))"
proof -
  have one64: "0 \<le> savings (calculateServerCosts64 s)"
    if "0 \<le> projectedMonthlyCost (calculateServerCosts64 s)"
    using current64_ge_projected64 [OF that] by (simp add: savings64_def' binary64_nonneg)
  have all64: "0 \<le> monthlySavings (processServerCosts64 servers)"
    if "\<forall>x \<in> set servers. 0 \<le> projectedMonthlyCost (calculateServerCosts64 x)"
  proof -
    from that have "\<forall>x \<in> set servers. projectedMonthlyCost (calculateServerCosts64 x)
                      \<le> currentMonthlyCost (calculateServerCosts64 x)"
      by (simp add: current64_ge_projected64)
    then have "monthlyCloudCost (processServerCosts64 servers)
                 \<le> currentCosts (processServerCosts64 servers)"
      unfolding processServerCosts64_monthly by (intro rounded_sums_mono) simp_all
    then show ?thesis
      by (simp add: processServerCosts64_monthly(3) binary64_nonneg)
  qed
  from one64 all64 show ?thesis
    by blast
qed

theorem savings_never_negative_witness:
  "0 \<le> projectedMonthlyCost (calculateServerCosts64 (with_utilization 75 example_server)) \<and>
   0 \<le> savings (calculateServerCosts64 (with_utilization 75 example_server)) \<and>
   0 \<le> projectedMonthlyCost (calculateServerCosts64 idle_server) \<and>
   0 \<le> monthlySavings
         (processServerCosts64 [with_utilization 75 example_server, idle_server])"
proof -
  have p: "0 \<le> projectedMonthlyCost (calculateServerCosts64 (with_utilization 75 example_server))"
    by (simp add: three_quarter_server64)
  have q: "0 \<le> projectedMonthlyCost (calculateServerCosts64 idle_server)"
    by (simp add: idle_server64)
  from p q have "\<forall>x \<in> set [with_utilization 75 example_server, idle_server].
                   0 \<le> projectedMonthlyCost (calculateServerCosts64 x)"
    by simp
  with savings_never_negative
         [of "with_utilization 75 example_server"
             "[with_utilization 75 example_server, idle_server]"] p q
  show ?thesis
    by blast
qed

end
